theory Spec2Isabelle
  imports Complex_Main "HOL-Library.Word"
begin

section \<open>Python exceptions\<close>

text \<open>
  Every exception that \<^verbatim>\<open>u_net.py\<close> or one of the library calls it makes can raise is a
  value of \<open>error\<close>. \<open>FileNotFoundError\<close> carries the path that was not found.
\<close>

type_synonym path = "string list"

datatype error =
    FileNotFoundError path
  | IndexError
  | ValueError
  | RuntimeError
  | ZeroDivisionError

section \<open>Files, images and arrays\<close>

text \<open>
  A directory is the list of its entries, in the order \<^verbatim>\<open>os.listdir\<close> reports them; a
  file system maps a directory path to its entries. \<^verbatim>\<open>os.path.join(d, n)\<close> is the path
  \<open>[d, n]\<close>: the entry \<open>n\<close> of directory \<open>d\<close> (the names joined here come from a listing
  and hold no separator). Every entry is an image that PIL decodes to 8-bit bands: mode
  \<open>L\<close> and \<open>P\<close> have one band, \<open>LA\<close> two, \<open>RGB\<close> three, \<open>RGBA\<close> four. Entries that are not
  images, and rasters deeper than 8 bits, are not modelled.
\<close>

datatype mode = L | P | LA | RGB | RGBA

record pil_image =
  im_mode :: mode
  im_height :: nat
  im_width :: nat
  im_pixels :: "8 word list"

type_synonym directory = "(string \<times> pil_image) list"
type_synonym filesystem = "string \<Rightarrow> directory option"

fun getbands :: "mode \<Rightarrow> nat" where
  "getbands L = 1"
| "getbands P = 1"
| "getbands LA = 2"
| "getbands RGB = 3"
| "getbands RGBA = 4"

text \<open>
  A numpy array is its shape and its buffer in row-major order; the buffer is \<open>uint8\<close>
  after \<^verbatim>\<open>np.array(img)\<close> and \<open>float64\<close> after a true division. Floating-point values
  are modelled as reals: rounding is not modelled.
\<close>

datatype npdata = U8 "8 word list" | F64 "real list"

record ndarray =
  shape :: "nat list"
  buf :: npdata

record tensor =
  tshape :: "nat list"
  tvals :: "real list"

definition path_join :: "string \<Rightarrow> string \<Rightarrow> path" where
  "path_join d n = [d, n]"

definition listdir :: "filesystem \<Rightarrow> string \<Rightarrow> error + string list" where
  "listdir fs d = (case fs d of None \<Rightarrow> Inl (FileNotFoundError [d]) | Some es \<Rightarrow> Inr (map fst es))"

definition Image_open :: "filesystem \<Rightarrow> path \<Rightarrow> error + pil_image" where
  "Image_open fs p =
     (case p of
        [d, n] \<Rightarrow>
          (case fs d of
             None \<Rightarrow> Inl (FileNotFoundError p)
           | Some es \<Rightarrow>
               (case map_of es n of
                  None \<Rightarrow> Inl (FileNotFoundError p)
                | Some img \<Rightarrow> Inr img))
      | _ \<Rightarrow> Inl (FileNotFoundError p))"

text \<open>\<^verbatim>\<open>np.array(img)\<close>: shape (H, W) for a one-band image, (H, W, bands) otherwise.\<close>

definition np_array :: "pil_image \<Rightarrow> ndarray" where
  "np_array img =
     \<lparr>shape = (if getbands (im_mode img) = 1 then [im_height img, im_width img]
               else [im_height img, im_width img, getbands (im_mode img)]),
      buf = U8 (im_pixels img)\<rparr>"

text \<open>The number a \<open>uint8\<close> holds, and the numbers an array holds.\<close>

definition u8_real :: "8 word \<Rightarrow> real" where
  "u8_real p = real (unat p)"

definition np_values :: "npdata \<Rightarrow> real list" where
  "np_values b = (case b of U8 ps \<Rightarrow> map u8_real ps | F64 vs \<Rightarrow> vs)"

text \<open>\<^verbatim>\<open>a.transpose((2, 0, 1))\<close>: \<open>out[c][i][j] = a[i][j][c]\<close>; an array that does not have
  three axes raises \<^verbatim>\<open>ValueError\<close>.\<close>

definition permute_201 :: "nat \<Rightarrow> nat \<Rightarrow> nat \<Rightarrow> 'a list \<Rightarrow> 'a list" where
  "permute_201 H W C xs =
     concat (map (\<lambda>c. concat (map (\<lambda>i. map (\<lambda>j. xs ! ((i * W + j) * C + c)) [0..<W]) [0..<H])) [0..<C])"

definition transpose_201 :: "ndarray \<Rightarrow> error + ndarray" where
  "transpose_201 a =
     (case shape a of
        [H, W, C] \<Rightarrow>
          Inr \<lparr>shape = [C, H, W],
               buf = (case buf a of
                        U8 ps \<Rightarrow> U8 (permute_201 H W C ps)
                      | F64 vs \<Rightarrow> F64 (permute_201 H W C vs))\<rparr>
      | _ \<Rightarrow> Inl ValueError)"

text \<open>\<^verbatim>\<open>a.max()\<close>: raises \<^verbatim>\<open>ValueError\<close> on an array with no element.\<close>

definition np_max :: "ndarray \<Rightarrow> error + real" where
  "np_max a = (case np_values (buf a) of [] \<Rightarrow> Inl ValueError | v # vs \<Rightarrow> Inr (fold max vs v))"

text \<open>\<^verbatim>\<open>a / k\<close>: true division, element by element, giving a \<open>float64\<close> array.\<close>

definition np_div :: "ndarray \<Rightarrow> real \<Rightarrow> ndarray" where
  "np_div a k = \<lparr>shape = shape a, buf = F64 (map (\<lambda>v. v / k) (np_values (buf a)))\<rparr>"

text \<open>\<^verbatim>\<open>torch.from_numpy(a).type(torch.FloatTensor)\<close>.\<close>

definition from_numpy_float :: "ndarray \<Rightarrow> tensor" where
  "from_numpy_float a = \<lparr>tshape = shape a, tvals = np_values (buf a)\<rparr>"

section \<open>BurnDataset\<close>

record BurnDataset =
  inputs_dir :: string
  masks_dir :: string
  data :: "string list"
  train :: bool

definition BurnDataset_init :: "filesystem \<Rightarrow> string \<Rightarrow> string \<Rightarrow> bool \<Rightarrow> error + BurnDataset" where
  "BurnDataset_init fs inputs masks tr =
     (case listdir fs inputs of
        Inl e \<Rightarrow> Inl e
      | Inr names \<Rightarrow> Inr \<lparr>inputs_dir = inputs, masks_dir = masks, data = names, train = tr\<rparr>)"

definition BurnDataset_len :: "BurnDataset \<Rightarrow> nat" where
  "BurnDataset_len ds = length (data ds)"

definition preprocess :: "pil_image \<Rightarrow> error + ndarray" where
  "preprocess img =
     (case transpose_201 (np_array img) of
        Inl e \<Rightarrow> Inl e
      | Inr img_array \<Rightarrow>
          (case np_max img_array of
             Inl e \<Rightarrow> Inl e
           | Inr m \<Rightarrow> Inr (if m > 1 then np_div img_array 255 else img_array)))"

text \<open>\<^verbatim>\<open>xs[i]\<close> on a Python list: \<open>-1\<close> is the last element, and an index outside
  \<open>-len(xs) .. len(xs) - 1\<close> raises \<^verbatim>\<open>IndexError\<close>.\<close>

definition py_index :: "'a list \<Rightarrow> int \<Rightarrow> error + 'a" where
  "py_index xs i =
     (if 0 \<le> i \<and> i < int (length xs) then Inr (xs ! nat i)
      else if i < 0 \<and> - int (length xs) \<le> i then Inr (xs ! nat (int (length xs) + i))
      else Inl IndexError)"

text \<open>\<^verbatim>\<open>name.split(".")[0]\<close>: the text before the first dot.\<close>

definition stem :: "string \<Rightarrow> string" where
  "stem name = takeWhile (\<lambda>c. c \<noteq> CHR ''.'') name"

definition BurnDataset_getitem :: "filesystem \<Rightarrow> BurnDataset \<Rightarrow> int \<Rightarrow> error + (tensor \<times> tensor)" where
  "BurnDataset_getitem fs ds index =
     (case py_index (data ds) index of
        Inl e \<Rightarrow> Inl e
      | Inr name \<Rightarrow>
          (let file_name = stem name;
               input_file = path_join (inputs_dir ds) (file_name @ ''.png'');
               mask_file = path_join (masks_dir ds) (file_name @ ''.png'')
           in case Image_open fs input_file of
                Inl e \<Rightarrow> Inl e
              | Inr input_image \<Rightarrow>
                  (case Image_open fs mask_file of
                     Inl e \<Rightarrow> Inl e
                   | Inr mask_image \<Rightarrow>
                       (case preprocess input_image of
                          Inl e \<Rightarrow> Inl e
                        | Inr input_array \<Rightarrow>
                            Inr (from_numpy_float input_array,
                                 from_numpy_float (np_div (np_array mask_image) 255))))))"

section \<open>U-Net blocks\<close>

text \<open>
  The network is modelled on the sizes of its feature maps: \<open>fmap\<close> is the
  \<^verbatim>\<open>torch.Size\<close> (N, C, H, W) of a four-axis tensor, the values the source itself reads
  with \<^verbatim>\<open>x.size()\<close>. A layer maps the size of its input to the size of its output, or
  raises where the library does:
  \<^item> \<^verbatim>\<open>Conv2d\<close> and \<^verbatim>\<open>ConvTranspose2d\<close> reject an input whose channel count is not
    \<open>in_channels\<close>, and a padded input smaller than the kernel;
    \<open>H_out = (H + 2 * padding - kernel_size) div stride + 1\<close>;
  \<^item> \<^verbatim>\<open>BatchNorm2d\<close> rejects a wrong channel count and, in training mode, an input with
    exactly one value per channel (\<open>N * H * W = 1\<close>);
  \<^item> \<^verbatim>\<open>MaxPool2d\<close> rejects an input smaller than its window;
    \<open>H_out = (H - kernel_size) div stride + 1\<close>;
  \<^item> \<^verbatim>\<open>Upsample\<close> multiplies height and width by the scale factor;
  \<^item> \<^verbatim>\<open>ReLU\<close> keeps the size.
  The first argument of the forward functions is the module's training flag.
\<close>

record fmap =
  batch :: nat
  channels :: nat
  height :: nat
  width :: nat

datatype layer =
    Conv2d nat nat nat nat nat \<comment> \<open>in_channels, out_channels, kernel_size, stride, padding\<close>
  | BatchNorm2d nat
  | ReLU
  | MaxPool2d nat nat \<comment> \<open>kernel_size, stride\<close>
  | Upsample nat \<comment> \<open>scale_factor\<close>
  | ConvTranspose2d nat nat nat nat \<comment> \<open>in_channels, out_channels, kernel_size, stride\<close>

fun layer_forward :: "bool \<Rightarrow> layer \<Rightarrow> fmap \<Rightarrow> error + fmap" where
  "layer_forward tr (Conv2d cin cout k s p) x =
     (if channels x \<noteq> cin then Inl RuntimeError
      else if height x + 2 * p < k \<or> width x + 2 * p < k then Inl RuntimeError
      else Inr (x\<lparr>channels := cout,
                  height := (height x + 2 * p - k) div s + 1,
                  width := (width x + 2 * p - k) div s + 1\<rparr>))"
| "layer_forward tr (BatchNorm2d c) x =
     (if channels x \<noteq> c then Inl RuntimeError
      else if tr \<and> batch x * height x * width x = 1 then Inl ValueError
      else Inr x)"
| "layer_forward tr ReLU x = Inr x"
| "layer_forward tr (MaxPool2d k s) x =
     (if height x < k \<or> width x < k then Inl RuntimeError
      else Inr (x\<lparr>height := (height x - k) div s + 1, width := (width x - k) div s + 1\<rparr>))"
| "layer_forward tr (Upsample f) x =
     (if height x = 0 \<or> width x = 0 then Inl RuntimeError
      else Inr (x\<lparr>height := height x * f, width := width x * f\<rparr>))"
| "layer_forward tr (ConvTranspose2d cin cout k s) x =
     (if channels x \<noteq> cin then Inl RuntimeError
      else if height x = 0 \<or> width x = 0 then Inl RuntimeError
      else Inr (x\<lparr>channels := cout,
                  height := (height x - 1) * s + k,
                  width := (width x - 1) * s + k\<rparr>))"

text \<open>\<^verbatim>\<open>nn.Sequential\<close>: the layers in order, stopping at the first one that raises.\<close>

fun sequential :: "bool \<Rightarrow> layer list \<Rightarrow> fmap \<Rightarrow> error + fmap" where
  "sequential tr [] x = Inr x"
| "sequential tr (l # ls) x =
     (case layer_forward tr l x of Inl e \<Rightarrow> Inl e | Inr y \<Rightarrow> sequential tr ls y)"

text \<open>
  The name \<open>f\<close> of the source is \<^verbatim>\<open>torchvision.transforms.functional\<close> (line 10), so
  \<^verbatim>\<open>f.pad\<close> is torchvision's \<open>pad\<close>. On a tensor it reads a four-element padding as
  (left, top, right, bottom), reorders it to [left, right, top, bottom] and hands it to
  \<^verbatim>\<open>torch.nn.functional.pad\<close>, which reads that list as (left, right, top, bottom) of the
  two last axes. A negative amount crops; a size that would fall below zero raises.
  \<open>torch_pad\<close> is modelled for the four-element list it receives here.
\<close>

definition parse_pad_padding :: "int list \<Rightarrow> error + int list" where
  "parse_pad_padding padding =
     (case padding of
        [a] \<Rightarrow> Inr [a, a, a, a]
      | [a, b] \<Rightarrow> Inr [a, a, b, b]
      | [pad_left, pad_top, pad_right, pad_bottom] \<Rightarrow> Inr [pad_left, pad_right, pad_top, pad_bottom]
      | _ \<Rightarrow> Inl ValueError)"

definition torch_pad :: "fmap \<Rightarrow> int list \<Rightarrow> error + fmap" where
  "torch_pad x p =
     (case p of
        [pad_left, pad_right, pad_top, pad_bottom] \<Rightarrow>
          (let h = int (height x) + pad_top + pad_bottom;
               w = int (width x) + pad_left + pad_right
           in if h < 0 \<or> w < 0 then Inl RuntimeError
              else Inr (x\<lparr>height := nat h, width := nat w\<rparr>))
      | _ \<Rightarrow> Inl RuntimeError)"

definition tv_pad :: "fmap \<Rightarrow> int list \<Rightarrow> error + fmap" where
  "tv_pad img padding =
     (case parse_pad_padding padding of Inl e \<Rightarrow> Inl e | Inr p \<Rightarrow> torch_pad img p)"

text \<open>\<^verbatim>\<open>torch.cat([a, b], dim=1)\<close>: every axis but the channels must agree.\<close>

definition torch_cat :: "fmap \<Rightarrow> fmap \<Rightarrow> error + fmap" where
  "torch_cat a b =
     (if batch a = batch b \<and> height a = height b \<and> width a = width b
      then Inr (a\<lparr>channels := channels a + channels b\<rparr>)
      else Inl RuntimeError)"

record DownConv =
  down_in_channels :: nat
  down_out_channels :: nat
  downblock :: "layer list"

definition DownConv_init :: "nat \<Rightarrow> nat \<Rightarrow> DownConv" where
  "DownConv_init in_channels out_channels =
     \<lparr>down_in_channels = in_channels, down_out_channels = out_channels,
      downblock =
        [MaxPool2d 2 2,
         Conv2d in_channels out_channels 3 1 1, BatchNorm2d out_channels, ReLU,
         Conv2d out_channels out_channels 3 1 1, BatchNorm2d out_channels, ReLU]\<rparr>"

definition DownConv_forward :: "bool \<Rightarrow> DownConv \<Rightarrow> fmap \<Rightarrow> error + fmap" where
  "DownConv_forward tr m x = sequential tr (downblock m) x"

record UpConv =
  up_in_channels :: nat
  up_out_channels :: nat
  mid_channels :: nat
  up_bilinear :: bool
  up :: layer
  conv :: "layer list"

definition UpConv_init :: "nat \<Rightarrow> nat \<Rightarrow> bool \<Rightarrow> UpConv" where
  "UpConv_init in_channels out_channels bilin =
     (let mid = in_channels div 2
      in if bilin
         then \<lparr>up_in_channels = in_channels, up_out_channels = out_channels, mid_channels = mid,
               up_bilinear = bilin,
               up = Upsample 2,
               conv = [Conv2d in_channels mid 3 1 1, BatchNorm2d mid, ReLU,
                       Conv2d mid out_channels 3 1 1, BatchNorm2d out_channels, ReLU]\<rparr>
         else \<lparr>up_in_channels = in_channels, up_out_channels = out_channels, mid_channels = mid,
               up_bilinear = bilin,
               up = ConvTranspose2d in_channels (in_channels div 2) 2 2,
               conv = [Conv2d in_channels out_channels 3 1 1, BatchNorm2d out_channels, ReLU,
                       Conv2d out_channels out_channels 3 1 1, BatchNorm2d out_channels, ReLU]\<rparr>)"

definition UpConv_forward :: "bool \<Rightarrow> UpConv \<Rightarrow> fmap \<Rightarrow> fmap \<Rightarrow> error + fmap" where
  "UpConv_forward tr m x1 x2 =
     (case layer_forward tr (up m) x1 of
        Inl e \<Rightarrow> Inl e
      | Inr x1u \<Rightarrow>
          (let dif_h = int (height x2) - int (height x1u);
               dif_w = int (width x2) - int (width x1u)
           in case tv_pad x1u [dif_w div 2, dif_w - dif_w div 2, dif_h div 2, dif_h - dif_h div 2] of
                Inl e \<Rightarrow> Inl e
              | Inr x1p \<Rightarrow>
                  (case torch_cat x2 x1p of
                     Inl e \<Rightarrow> Inl e
                   | Inr x \<Rightarrow> sequential tr (conv m) x)))"

record DoubleConv =
  dbl_in_channels :: nat
  dbl_out_channels :: nat
  doubleconv :: "layer list"

definition DoubleConv_init :: "nat \<Rightarrow> nat \<Rightarrow> DoubleConv" where
  "DoubleConv_init in_channels out_channels =
     \<lparr>dbl_in_channels = in_channels, dbl_out_channels = out_channels,
      doubleconv =
        [Conv2d in_channels out_channels 3 1 1, BatchNorm2d out_channels, ReLU,
         Conv2d out_channels out_channels 3 1 1, BatchNorm2d out_channels, ReLU]\<rparr>"

definition DoubleConv_forward :: "bool \<Rightarrow> DoubleConv \<Rightarrow> fmap \<Rightarrow> error + fmap" where
  "DoubleConv_forward tr m x = sequential tr (doubleconv m) x"

record OutConv =
  out_conv :: layer

definition OutConv_init :: "nat \<Rightarrow> nat \<Rightarrow> OutConv" where
  "OutConv_init in_channels out_channels = \<lparr>out_conv = Conv2d in_channels out_channels 1 1 0\<rparr>"

definition OutConv_forward :: "bool \<Rightarrow> OutConv \<Rightarrow> fmap \<Rightarrow> error + fmap" where
  "OutConv_forward tr m x = layer_forward tr (out_conv m) x"

record UNet =
  n_channels :: nat
  n_classes :: nat
  bilinear :: bool
  training :: bool
  l1 :: DoubleConv
  down1 :: DownConv
  down2 :: DownConv
  down3 :: DownConv
  down4 :: DownConv
  up1 :: UpConv
  up2 :: UpConv
  up3 :: UpConv
  up4 :: UpConv
  out :: OutConv

text \<open>A new module is in training mode; \<^verbatim>\<open>eval()\<close> and \<^verbatim>\<open>train()\<close> switch the flag.\<close>

definition UNet_init :: "nat \<Rightarrow> nat \<Rightarrow> bool \<Rightarrow> UNet" where
  "UNet_init nch ncl bilin =
     (let factor = (if bilin then 2 else 1)
      in \<lparr>n_channels = nch, n_classes = ncl, bilinear = bilin, training = True,
          l1 = DoubleConv_init nch 64,
          down1 = DownConv_init 64 128,
          down2 = DownConv_init 128 256,
          down3 = DownConv_init 256 512,
          down4 = DownConv_init 512 (1024 div factor),
          up1 = UpConv_init 1024 (512 div factor) bilin,
          up2 = UpConv_init 512 (256 div factor) bilin,
          up3 = UpConv_init 256 (128 div factor) bilin,
          up4 = UpConv_init 128 64 bilin,
          out = OutConv_init 64 ncl\<rparr>)"

definition UNet_forward :: "UNet \<Rightarrow> fmap \<Rightarrow> error + fmap" where
  "UNet_forward net x =
     (let tr = training net in
      case DoubleConv_forward tr (l1 net) x of Inl e \<Rightarrow> Inl e | Inr x1 \<Rightarrow>
      case DownConv_forward tr (down1 net) x1 of Inl e \<Rightarrow> Inl e | Inr x2 \<Rightarrow>
      case DownConv_forward tr (down2 net) x2 of Inl e \<Rightarrow> Inl e | Inr x3 \<Rightarrow>
      case DownConv_forward tr (down3 net) x3 of Inl e \<Rightarrow> Inl e | Inr x4 \<Rightarrow>
      case DownConv_forward tr (down4 net) x4 of Inl e \<Rightarrow> Inl e | Inr x5 \<Rightarrow>
      case UpConv_forward tr (up1 net) x5 x4 of Inl e \<Rightarrow> Inl e | Inr y1 \<Rightarrow>
      case UpConv_forward tr (up2 net) y1 x3 of Inl e \<Rightarrow> Inl e | Inr y2 \<Rightarrow>
      case UpConv_forward tr (up3 net) y2 x2 of Inl e \<Rightarrow> Inl e | Inr y3 \<Rightarrow>
      case UpConv_forward tr (up4 net) y3 x1 of Inl e \<Rightarrow> Inl e | Inr y4 \<Rightarrow>
      OutConv_forward tr (out net) y4)"

definition UNet_eval :: "UNet \<Rightarrow> UNet" where
  "UNet_eval net = net\<lparr>training := False\<rparr>"

definition UNet_train :: "UNet \<Rightarrow> UNet" where
  "UNet_train net = net\<lparr>training := True\<rparr>"

section \<open>The training loop\<close>

text \<open>
  \<open>train_model\<close> drives objects it is given or builds from the library: the model, the
  loss, the optimizer, the scheduler and the two data loaders. What they compute is left
  open; what \<open>train_model\<close> does with them, and in which order, is modelled as written.
  \<^item> \<open>nn_model\<close> is the state of the module: its parameters, their \<^verbatim>\<open>.grad\<close> (absent is
    \<open>None\<close>) and its training flag.
  \<^item> \<open>model_loss ps tr b\<close> is \<^verbatim>\<open>criterion(model(images), masks).item()\<close> for the batch
    \<open>b\<close> under the parameters \<open>ps\<close> in mode \<open>tr\<close>; it may raise.
  \<^item> \<open>backward ps b gs\<close> is \<^verbatim>\<open>loss.backward()\<close>: the gradients after the pass, from the
    gradients \<open>gs\<close> before it.
  \<^item> \<open>optimizer_init lr\<close> builds the RMSprop optimizer with its plateau scheduler,
    \<open>optimizer_step\<close> is \<^verbatim>\<open>optimizer.step()\<close>, \<open>scheduler_step\<close> is
    \<^verbatim>\<open>scheduler.step(val_loss)\<close>, \<open>learning_rate\<close> reads
    \<^verbatim>\<open>optimizer.param_groups[0]['lr']\<close>.
  \<^item> A data loader is the list of its batches; the training loader, which shuffles, may
    yield a different list in each epoch.
  Numbers are reals; the device and the progress bars are left out. The state carries the
  summary writer's records and a trace of two events: each call of \<^verbatim>\<open>optimizer.step()\<close>
  with the gradients it reads, and each start of a validation round with the global step
  at which it starts. A run yields its last state and the exception that ended it, if any.
\<close>

record nn_model =
  params :: "real list"
  grad :: "real option list"
  train_mode :: bool

record ('o, 'b) collaborators =
  model_loss :: "real list \<Rightarrow> bool \<Rightarrow> 'b \<Rightarrow> error + real"
  backward :: "real list \<Rightarrow> 'b \<Rightarrow> real option list \<Rightarrow> real option list"
  optimizer_init :: "real \<Rightarrow> 'o"
  optimizer_step :: "'o \<Rightarrow> real list \<Rightarrow> real option list \<Rightarrow> 'o \<times> real list"
  scheduler_step :: "'o \<Rightarrow> real \<Rightarrow> 'o"
  learning_rate :: "'o \<Rightarrow> real"

datatype log_entry = Scalar string real int | Images string int

datatype event = OptimizerStep "real option list" | ValidationRound int

record 'o train_state =
  model :: nn_model
  optimizer :: 'o
  global_step :: int
  epoch_loss :: real
  writer :: "log_entry list"
  events :: "event list"

text \<open>Python's \<^verbatim>\<open>//\<close>, \<^verbatim>\<open>%\<close> and \<^verbatim>\<open>/\<close>: they raise on a zero divisor; on integers they round
  towards minus infinity, as \<open>div\<close> and \<open>mod\<close> do.\<close>

definition py_floordiv :: "int \<Rightarrow> int \<Rightarrow> error + int" where
  "py_floordiv a b = (if b = 0 then Inl ZeroDivisionError else Inr (a div b))"

definition py_mod :: "int \<Rightarrow> int \<Rightarrow> error + int" where
  "py_mod a b = (if b = 0 then Inl ZeroDivisionError else Inr (a mod b))"

definition py_truediv :: "real \<Rightarrow> int \<Rightarrow> error + real" where
  "py_truediv a b = (if b = 0 then Inl ZeroDivisionError else Inr (a / real_of_int b))"

text \<open>\<^verbatim>\<open>optimizer.zero_grad()\<close> drops every gradient;
  \<^verbatim>\<open>clip_grad_value_(parameters, clip_value)\<close> clamps every gradient that is present to
  \<open>[-clip_value, clip_value]\<close>.\<close>

definition zero_grad :: "real option list \<Rightarrow> real option list" where
  "zero_grad gs = map (\<lambda>g. None) gs"

definition clamp :: "real \<Rightarrow> real \<Rightarrow> real \<Rightarrow> real" where
  "clamp lo hi v = min (max v lo) hi"

definition clip_grad_value :: "real option list \<Rightarrow> real \<Rightarrow> real option list" where
  "clip_grad_value gs clip_value = map (map_option (clamp (- clip_value) clip_value)) gs"

text \<open>Lines 238 to 256: one validation round.\<close>

fun val_loop :: "('o, 'b) collaborators \<Rightarrow> nn_model \<Rightarrow> 'b list \<Rightarrow> real \<Rightarrow> error + real" where
  "val_loop C m [] val_run_loss = Inr val_run_loss"
| "val_loop C m (b # bs) val_run_loss =
     (case model_loss C (params m) (train_mode m) b of
        Inl e \<Rightarrow> Inl e
      | Inr l \<Rightarrow> val_loop C m bs (val_run_loss + l))"

definition validation_round ::
  "('o, 'b) collaborators \<Rightarrow> 'b list \<Rightarrow> 'o train_state \<Rightarrow> 'o train_state \<times> error option" where
  "validation_round C val_dataloader st =
     (let n_val = int (length val_dataloader);
          st1 = st\<lparr>model := (model st)\<lparr>train_mode := False\<rparr>,
                   events := events st @ [ValidationRound (global_step st)]\<rparr>
      in case val_loop C (model st1) val_dataloader 0 of
           Inl e \<Rightarrow> (st1, Some e)
         | Inr val_run_loss \<Rightarrow>
             (let st2 = st1\<lparr>model := (model st1)\<lparr>train_mode := True\<rparr>\<rparr>
              in case py_truediv val_run_loss n_val of
                   Inl e \<Rightarrow> (st2, Some e)
                 | Inr val_loss \<Rightarrow>
                     (let st3 = st2\<lparr>optimizer := scheduler_step C (optimizer st2) val_loss\<rparr>
                      in (st3\<lparr>writer := writer st3 @
                               [Scalar ''learning_rate'' (learning_rate C (optimizer st3)) (global_step st3),
                                Scalar ''Loss/validation'' val_loss (global_step st3),
                                Images ''images'' (global_step st3)]\<rparr>,
                          None))))"

text \<open>Lines 221 to 256: one training batch.\<close>

definition train_batch ::
  "('o, 'b) collaborators \<Rightarrow> int \<Rightarrow> int \<Rightarrow> 'b list \<Rightarrow> 'b \<Rightarrow> 'o train_state
     \<Rightarrow> 'o train_state \<times> error option" where
  "train_batch C n_train batch_size val_dataloader b st =
     (case model_loss C (params (model st)) (train_mode (model st)) b of
        Inl e \<Rightarrow> (st, Some e)
      | Inr loss \<Rightarrow>
          (let m1 = (model st)\<lparr>grad := zero_grad (grad (model st))\<rparr>;
               m2 = m1\<lparr>grad := backward C (params m1) b (grad m1)\<rparr>;
               m3 = m2\<lparr>grad := clip_grad_value (grad m2) (1 / 10)\<rparr>;
               stepped = optimizer_step C (optimizer st) (params m3) (grad m3);
               st1 = st\<lparr>model := m3\<lparr>params := snd stepped\<rparr>,
                        optimizer := fst stepped,
                        epoch_loss := epoch_loss st + loss,
                        events := events st @ [OptimizerStep (grad m3)],
                        global_step := global_step st + 1\<rparr>
           in case py_floordiv n_train (10 * batch_size) of
                Inl e \<Rightarrow> (st1, Some e)
              | Inr d \<Rightarrow>
                  (case py_mod (global_step st1) d of
                     Inl e \<Rightarrow> (st1, Some e)
                   | Inr r \<Rightarrow>
                       if r = 0 then validation_round C val_dataloader st1 else (st1, None))))"

fun batch_loop ::
  "('o, 'b) collaborators \<Rightarrow> int \<Rightarrow> int \<Rightarrow> 'b list \<Rightarrow> 'b list \<Rightarrow> 'o train_state
     \<Rightarrow> 'o train_state \<times> error option" where
  "batch_loop C n_train batch_size val_dataloader [] st = (st, None)"
| "batch_loop C n_train batch_size val_dataloader (b # bs) st =
     (case train_batch C n_train batch_size val_dataloader b st of
        (st', Some e) \<Rightarrow> (st', Some e)
      | (st', None) \<Rightarrow> batch_loop C n_train batch_size val_dataloader bs st')"

fun epoch_loop ::
  "('o, 'b) collaborators \<Rightarrow> int \<Rightarrow> int \<Rightarrow> (nat \<Rightarrow> 'b list) \<Rightarrow> 'b list \<Rightarrow> nat list
     \<Rightarrow> 'o train_state \<Rightarrow> 'o train_state \<times> error option" where
  "epoch_loop C n_train batch_size train_dataloader val_dataloader [] st = (st, None)"
| "epoch_loop C n_train batch_size train_dataloader val_dataloader (epoch # rest) st =
     (let st0 = st\<lparr>model := (model st)\<lparr>train_mode := True\<rparr>, epoch_loss := 0\<rparr>
      in case batch_loop C n_train batch_size val_dataloader (train_dataloader epoch) st0 of
           (st', Some e) \<Rightarrow> (st', Some e)
         | (st', None) \<Rightarrow>
             epoch_loop C n_train batch_size train_dataloader val_dataloader rest st')"

definition train_model ::
  "('o, 'b) collaborators \<Rightarrow> nn_model \<Rightarrow> int \<Rightarrow> int \<Rightarrow> real \<Rightarrow> int \<Rightarrow> (nat \<Rightarrow> 'b list) \<Rightarrow> 'b list
     \<Rightarrow> 'o train_state \<times> error option" where
  "train_model C mdl epochs batch_size lr n_train train_dataloader val_dataloader =
     epoch_loop C n_train batch_size train_dataloader val_dataloader [0..<nat epochs]
       \<lparr>model = mdl, optimizer = optimizer_init C lr, global_step = 0, epoch_loss = 0,
        writer = [], events = []\<rparr>"

text \<open>The global steps at which validation rounds started, and the gradients read by the
  optimizer steps, in the order of the trace.\<close>

fun validation_steps :: "event list \<Rightarrow> int list" where
  "validation_steps [] = []"
| "validation_steps (ValidationRound g # evs) = g # validation_steps evs"
| "validation_steps (OptimizerStep gs # evs) = validation_steps evs"

fun optimizer_steps :: "event list \<Rightarrow> real option list list" where
  "optimizer_steps [] = []"
| "optimizer_steps (OptimizerStep gs # evs) = gs # optimizer_steps evs"
| "optimizer_steps (ValidationRound g # evs) = optimizer_steps evs"

section \<open>Fixtures\<close>

text \<open>Small concrete inputs on which the functions above are evaluated.\<close>

definition fixture_rgb :: pil_image where
  "fixture_rgb = \<lparr>im_mode = RGB, im_height = 1, im_width = 2, im_pixels = [255, 0, 51, 0, 0, 102]\<rparr>"

definition fixture_rgba :: pil_image where
  "fixture_rgba = \<lparr>im_mode = RGBA, im_height = 1, im_width = 1, im_pixels = [255, 0, 0, 255]\<rparr>"

definition fixture_mask :: pil_image where
  "fixture_mask = \<lparr>im_mode = L, im_height = 1, im_width = 2, im_pixels = [0, 255]\<rparr>"

definition fixture_mask22 :: pil_image where
  "fixture_mask22 = \<lparr>im_mode = L, im_height = 2, im_width = 2, im_pixels = [0, 255, 51, 0]\<rparr>"

text \<open>Inputs \<^verbatim>\<open>a.png\<close>, \<^verbatim>\<open>b.jpg\<close> and \<^verbatim>\<open>c.png\<close>; the only mask is \<^verbatim>\<open>a.png\<close>.\<close>

definition fixture_fs :: filesystem where
  "fixture_fs d =
     (if d = ''in''
      then Some [(''a.png'', fixture_rgb), (''b.jpg'', fixture_rgb), (''c.png'', fixture_rgb)]
      else if d = ''masks'' then Some [(''a.png'', fixture_mask)] else None)"

definition fixture_ds :: BurnDataset where
  "fixture_ds =
     \<lparr>inputs_dir = ''in'', masks_dir = ''masks'', data = [''a.png'', ''b.jpg'', ''c.png''], train = True\<rparr>"

text \<open>The input \<^verbatim>\<open>a.png\<close> is a 1 x 1 RGBA image and its mask is 2 x 2.\<close>

definition fixture_fs_rgba :: filesystem where
  "fixture_fs_rgba d =
     (if d = ''in'' then Some [(''a.png'', fixture_rgba)]
      else if d = ''masks'' then Some [(''a.png'', fixture_mask22)] else None)"

definition fixture_ds_rgba :: BurnDataset where
  "fixture_ds_rgba = \<lparr>inputs_dir = ''in'', masks_dir = ''masks'', data = [''a.png''], train = True\<rparr>"

text \<open>The inputs \<^verbatim>\<open>a.jpg\<close> and \<^verbatim>\<open>a.png\<close> lie side by side.\<close>

definition fixture_fs_sibling :: filesystem where
  "fixture_fs_sibling d =
     (if d = ''in'' then Some [(''a.jpg'', fixture_rgb), (''a.png'', fixture_rgb)]
      else if d = ''masks'' then Some [(''a.png'', fixture_mask)] else None)"

definition fixture_ds_sibling :: BurnDataset where
  "fixture_ds_sibling =
     \<lparr>inputs_dir = ''in'', masks_dir = ''masks'', data = [''a.jpg'', ''a.png''], train = True\<rparr>"

text \<open>A model of one parameter whose loss on the batch \<open>b\<close> is \<open>w * b\<close>, with gradient
  \<open>b\<close>, and plain gradient descent.\<close>

definition fixture_collab :: "(real, real) collaborators" where
  "fixture_collab =
     \<lparr>model_loss = (\<lambda>ps tr b. case ps of [] \<Rightarrow> Inl RuntimeError | w # ws \<Rightarrow> Inr (w * b)),
      backward = (\<lambda>ps b gs. map (\<lambda>g. Some b) gs),
      optimizer_init = (\<lambda>lr. lr),
      optimizer_step =
        (\<lambda>opt ps gs. (opt, map2 (\<lambda>p g. case g of None \<Rightarrow> p | Some v \<Rightarrow> p - opt * v) ps gs)),
      scheduler_step = (\<lambda>opt l. opt),
      learning_rate = (\<lambda>opt. opt)\<rparr>"

definition fixture_model :: nn_model where
  "fixture_model = \<lparr>params = [1], grad = [None], train_mode = True\<rparr>"

definition fixture_loader :: "nat \<Rightarrow> real list" where
  "fixture_loader epoch = [5, -3]"

section \<open>Vocabulary of the statements\<close>

text \<open>The directory \<open>d\<close> has no entry \<open>n\<close> (or there is no directory \<open>d\<close>).\<close>

definition entry_missing :: "filesystem \<Rightarrow> string \<Rightarrow> string \<Rightarrow> bool" where
  "entry_missing fs d n = (case fs d of None \<Rightarrow> True | Some es \<Rightarrow> map_of es n = None)"

text \<open>What the trace of a run records, with \<open>d\<close> the divisor of the validation check: the
  validation rounds started at the multiples of \<open>d\<close> among the global steps reached, there
  is one optimizer step per global step, and every gradient an optimizer step read is
  within the clipping bound.\<close>

definition trace_invariant :: "int \<Rightarrow> 'o train_state \<Rightarrow> bool" where
  "trace_invariant d st =
     (0 \<le> global_step st
      \<and> validation_steps (events st) = filter (\<lambda>g. d dvd g) [1..global_step st]
      \<and> length (optimizer_steps (events st)) = nat (global_step st)
      \<and> (\<forall>gs \<in> set (optimizer_steps (events st)). \<forall>v. Some v \<in> set gs \<longrightarrow> \<bar>v\<bar> \<le> 1 / 10))"

section \<open>Evaluation on concrete inputs\<close>

lemmas dataset_defs = BurnDataset_getitem_def BurnDataset_init_def BurnDataset_len_def listdir_def
  py_index_def stem_def path_join_def Image_open_def preprocess_def transpose_201_def np_array_def
  permute_201_def np_max_def np_values_def u8_real_def np_div_def from_numpy_float_def
  entry_missing_def

lemmas fixture_defs = fixture_fs_def fixture_ds_def fixture_rgb_def fixture_mask_def
  fixture_fs_rgba_def fixture_ds_rgba_def fixture_rgba_def fixture_mask22_def
  fixture_fs_sibling_def fixture_ds_sibling_def

lemmas unet_defs = UNet_forward_def UNet_init_def UNet_eval_def UNet_train_def
  OutConv_forward_def OutConv_init_def DoubleConv_forward_def DoubleConv_init_def
  UpConv_forward_def UpConv_init_def DownConv_forward_def DownConv_init_def
  torch_cat_def tv_pad_def torch_pad_def parse_pad_padding_def

lemmas train_defs = train_model_def train_batch_def validation_round_def py_floordiv_def
  py_mod_def py_truediv_def zero_grad_def clip_grad_value_def clamp_def
  fixture_collab_def fixture_model_def fixture_loader_def

section \<open>The dataset\<close>

subsection \<open>Pixels, files and preprocessing\<close>

lemma unat_u8_le: "unat (p :: 8 word) \<le> 255"
  using unsigned_less [of p, where 'a = nat] by simp

lemma u8_real_range: "0 \<le> u8_real p \<and> u8_real p \<le> 255"
proof -
  have "real (unat p) \<le> real 255"
    using unat_u8_le [of p] by (rule iffD2 [OF of_nat_le_iff])
  then show ?thesis
    by (simp add: u8_real_def del: of_nat_unat)
qed

lemma u8_real_gt1: "(1 < u8_real p) = (1 < unat p)"
  using of_nat_less_iff [of 1 "unat p", where 'a = real]
  by (simp add: u8_real_def del: of_nat_unat)

lemma div255_range: "0 \<le> u8_real p / 255 \<and> u8_real p / 255 \<le> 1"
  using u8_real_range [of p] by simp

lemma fold_max_gt: "(a < fold max vs (v :: real)) = (\<exists>x \<in> set (v # vs). a < x)"
  by (induction vs arbitrary: v) (auto simp: max_def)

lemma Image_open_Inr:
  "Image_open fs p = Inr img \<Longrightarrow> \<exists>d n es. p = [d, n] \<and> fs d = Some es \<and> map_of es n = Some img"
  by (auto simp: Image_open_def split: list.splits option.splits)

lemma getitem_Inr:
  assumes "BurnDataset_getitem fs ds index = Inr (im, gt)"
  shows "\<exists>name img msk arr.
           py_index (data ds) index = Inr name
         \<and> Image_open fs (path_join (inputs_dir ds) (stem name @ ''.png'')) = Inr img
         \<and> Image_open fs (path_join (masks_dir ds) (stem name @ ''.png'')) = Inr msk
         \<and> preprocess img = Inr arr
         \<and> im = from_numpy_float arr
         \<and> gt = from_numpy_float (np_div (np_array msk) 255)"
  using assms by (auto simp: BurnDataset_getitem_def Let_def split: sum.splits)

lemma transpose_np_array:
  assumes "transpose_201 (np_array img) = Inr t"
  shows "getbands (im_mode img) \<noteq> 1"
    and "shape t = [getbands (im_mode img), im_height img, im_width img]"
    and "buf t = U8 (permute_201 (im_height img) (im_width img) (getbands (im_mode img)) (im_pixels img))"
  using assms by (auto simp: transpose_201_def np_array_def split: if_splits)

lemma np_max_gt:
  assumes "np_max a = Inr m"
  shows "(1 < m) = (\<exists>v \<in> set (np_values (buf a)). 1 < v)"
  using assms by (auto simp: np_max_def fold_max_gt split: list.splits)

lemma preprocess_Inr:
  assumes "preprocess img = Inr arr"
  shows "getbands (im_mode img) \<noteq> 1
       \<and> shape arr = [getbands (im_mode img), im_height img, im_width img]
       \<and> np_values (buf arr) =
           (let ps = permute_201 (im_height img) (im_width img) (getbands (im_mode img)) (im_pixels img)
            in if \<exists>p \<in> set ps. 1 < unat p then map (\<lambda>p. u8_real p / 255) ps
               else map u8_real ps)"
proof -
  from assms obtain t m where t: "transpose_201 (np_array img) = Inr t"
    and m: "np_max t = Inr m"
    and arr: "arr = (if 1 < m then np_div t 255 else t)"
    by (auto simp: preprocess_def split: sum.splits)
  let ?ps = "permute_201 (im_height img) (im_width img) (getbands (im_mode img)) (im_pixels img)"
  have b: "buf t = U8 ?ps" by (rule transpose_np_array(3) [OF t])
  have gt: "(1 < m) = (\<exists>p \<in> set ?ps. 1 < unat p)"
    using np_max_gt [OF m] b by (simp add: np_values_def u8_real_gt1)
  have v: "np_values (buf arr) = (if 1 < m then map (\<lambda>p. u8_real p / 255) ?ps else map u8_real ?ps)"
    using b by (simp add: arr np_div_def np_values_def comp_def)
  have s: "shape arr = [getbands (im_mode img), im_height img, im_width img]"
    using transpose_np_array(2) [OF t] by (simp add: arr np_div_def)
  show ?thesis
    using transpose_np_array(1) [OF t] s v gt by (simp add: Let_def)
qed

lemma preprocess_range:
  assumes "preprocess img = Inr arr" and "v \<in> set (np_values (buf arr))"
  shows "0 \<le> v \<and> v \<le> 1"
proof -
  let ?ps = "permute_201 (im_height img) (im_width img) (getbands (im_mode img)) (im_pixels img)"
  show ?thesis
  proof (cases "\<exists>p \<in> set ?ps. 1 < unat p")
    case True
    then have "np_values (buf arr) = map (\<lambda>p. u8_real p / 255) ?ps"
      using preprocess_Inr [OF assms(1)] by (simp add: Let_def)
    then obtain p where "v = u8_real p / 255" using assms(2) by auto
    then show ?thesis using div255_range [of p] by simp
  next
    case False
    then have "np_values (buf arr) = map u8_real ?ps"
      using preprocess_Inr [OF assms(1)] by (simp add: Let_def)
    then obtain p where p: "v = u8_real p" "p \<in> set ?ps" using assms(2) by auto
    then have "\<not> 1 < u8_real p" using False by (simp add: u8_real_gt1)
    then show ?thesis using p(1) u8_real_range [of p] by simp
  qed
qed


lemma Image_open_missing:
  "entry_missing fs d n \<Longrightarrow> Image_open fs (path_join d n) = Inl (FileNotFoundError [d, n])"
  by (auto simp: Image_open_def path_join_def entry_missing_def split: option.splits)

lemma py_index_member: "py_index xs i = Inr x \<Longrightarrow> x \<in> set xs"
  by (auto simp: py_index_def split: if_splits)

lemma py_index_range:
  "py_index xs i = Inr x \<Longrightarrow> - int (length xs) \<le> i \<and> i < int (length xs)"
  by (auto simp: py_index_def split: if_splits)

subsection \<open>Length\<close>

text \<open>
  C8. For any dataset constructed from an inputs directory and a masks directory,
  \<open>length()\<close> equals the number of files (directory entries) in the inputs directory,
  regardless of the contents of the masks directory: the masks path and what the file
  system holds there are arbitrary.
\<close>

theorem length_counts_input_files:
  assumes "BurnDataset_init fs inputs masks tr = Inr ds"
  shows "\<exists>es. fs inputs = Some es \<and> BurnDataset_len ds = length es"
  using assms
  by (auto simp: BurnDataset_init_def listdir_def BurnDataset_len_def split: option.splits)

text \<open>Witness for C8: three input files and a masks directory that does not exist.\<close>

theorem length_counts_input_files_witness:
  "BurnDataset_init fixture_fs ''in'' ''nowhere'' True = Inr (fixture_ds\<lparr>masks_dir := ''nowhere''\<rparr>)
   \<and> fixture_fs ''nowhere'' = None
   \<and> (\<exists>es. fixture_fs ''in'' = Some es
          \<and> BurnDataset_len (fixture_ds\<lparr>masks_dir := ''nowhere''\<rparr>) = length es)
   \<and> BurnDataset_len (fixture_ds\<lparr>masks_dir := ''nowhere''\<rparr>) = 3"
proof -
  have h: "BurnDataset_init fixture_fs ''in'' ''nowhere'' True = Inr (fixture_ds\<lparr>masks_dir := ''nowhere''\<rparr>)"
    by (simp add: dataset_defs fixture_defs)
  show ?thesis
    using h length_counts_input_files [OF h]
    by (simp add: fixture_fs_def fixture_ds_def BurnDataset_len_def)
qed

subsection \<open>Missing masks\<close>



subsection \<open>The returned sample\<close>



text \<open>
  C5, as stated, fails: an RGBA input file comes back with four channels, and the mask
  comes back with its own size, here 2 x 2 beside a 1 x 1 image.
\<close>

theorem sample_shapes_counterexample:
  "BurnDataset_init fixture_fs_rgba ''in'' ''masks'' True = Inr fixture_ds_rgba
   \<and> BurnDataset_getitem fixture_fs_rgba fixture_ds_rgba 0
     = Inr (\<lparr>tshape = [4, 1, 1], tvals = [1, 0, 0, 1]\<rparr>,
            \<lparr>tshape = [2, 2], tvals = [0, 1, 1 / 5, 0]\<rparr>)"
  by (simp add: dataset_defs fixture_defs upt_rec)

text \<open>
  C5, amended. For every sample successfully returned by \<open>get(index)\<close>, the input file
  has more than one band and the image tensor has the channel-first shape (C, H, W),
  where H x W is the size of the input file and C the number of its bands (3 for an RGB
  file), with every value in [0, 1], divided by 255 exactly when the maximum of the
  loaded array exceeds 1. The mask tensor has the shape of the mask file's own array; it
  is (H, W) when the mask file has one band and the size of the input file, which \<open>get\<close>
  does not check.
\<close>

theorem sample_shapes:
  assumes "BurnDataset_getitem fs ds index = Inr (im, gt)"
  shows "\<exists>name img msk.
           py_index (data ds) index = Inr name
         \<and> Image_open fs (path_join (inputs_dir ds) (stem name @ ''.png'')) = Inr img
         \<and> Image_open fs (path_join (masks_dir ds) (stem name @ ''.png'')) = Inr msk
         \<and> getbands (im_mode img) \<noteq> 1
         \<and> tshape im = [getbands (im_mode img), im_height img, im_width img]
         \<and> (im_mode img = RGB \<longrightarrow> tshape im = [3, im_height img, im_width img])
         \<and> tvals im =
             (let ps = permute_201 (im_height img) (im_width img) (getbands (im_mode img))
                         (im_pixels img)
              in if \<exists>p \<in> set ps. 1 < unat p then map (\<lambda>p. u8_real p / 255) ps
                 else map u8_real ps)
         \<and> (\<forall>v \<in> set (tvals im). 0 \<le> v \<and> v \<le> 1)
         \<and> tshape gt = shape (np_array msk)
         \<and> (getbands (im_mode msk) = 1 \<and> im_height msk = im_height img
              \<and> im_width msk = im_width img
              \<longrightarrow> tshape gt = [im_height img, im_width img])"
proof -
  from getitem_Inr [OF assms] obtain name img msk arr where
    n: "py_index (data ds) index = Inr name"
    and i: "Image_open fs (path_join (inputs_dir ds) (stem name @ ''.png'')) = Inr img"
    and m: "Image_open fs (path_join (masks_dir ds) (stem name @ ''.png'')) = Inr msk"
    and p: "preprocess img = Inr arr"
    and im: "im = from_numpy_float arr"
    and g: "gt = from_numpy_float (np_div (np_array msk) 255)"
    by blast
  note pre = preprocess_Inr [OF p]
  have s: "tshape im = [getbands (im_mode img), im_height img, im_width img]"
    using pre by (simp add: im from_numpy_float_def)
  have s3: "im_mode img = RGB \<longrightarrow> tshape im = [3, im_height img, im_width img]"
    using s by simp
  have v: "tvals im =
             (let ps = permute_201 (im_height img) (im_width img) (getbands (im_mode img))
                         (im_pixels img)
              in if \<exists>p \<in> set ps. 1 < unat p then map (\<lambda>p. u8_real p / 255) ps
                 else map u8_real ps)"
    using pre by (simp add: im from_numpy_float_def)
  have r: "\<forall>v \<in> set (tvals im). 0 \<le> v \<and> v \<le> 1"
    using preprocess_range [OF p] by (simp add: im from_numpy_float_def)
  have gs: "tshape gt = shape (np_array msk)"
    by (simp add: g from_numpy_float_def np_div_def)
  have gs2: "getbands (im_mode msk) = 1 \<and> im_height msk = im_height img
              \<and> im_width msk = im_width img
              \<longrightarrow> tshape gt = [im_height img, im_width img]"
    by (simp add: gs np_array_def)
  show ?thesis using n i m pre s s3 v r gs gs2 by blast
qed

text \<open>Witness for C5: an RGB input of size 1 x 2 with a one-band mask of the same size.\<close>

theorem sample_shapes_witness:
  "BurnDataset_getitem fixture_fs fixture_ds 0
     = Inr (\<lparr>tshape = [3, 1, 2], tvals = [1, 0, 0, 0, 1 / 5, 2 / 5]\<rparr>,
            \<lparr>tshape = [1, 2], tvals = [0, 1]\<rparr>)
   \<and> (\<exists>name img msk.
           py_index (data fixture_ds) 0 = Inr name
         \<and> Image_open fixture_fs (path_join (inputs_dir fixture_ds) (stem name @ ''.png'')) = Inr img
         \<and> Image_open fixture_fs (path_join (masks_dir fixture_ds) (stem name @ ''.png'')) = Inr msk
         \<and> [3, 1, 2] = [getbands (im_mode img), im_height img, im_width img]
         \<and> [1, 2] = shape (np_array msk))"
proof -
  have h: "BurnDataset_getitem fixture_fs fixture_ds 0
     = Inr (\<lparr>tshape = [3, 1, 2], tvals = [1, 0, 0, 0, 1 / 5, 2 / 5]\<rparr>,
            \<lparr>tshape = [1, 2], tvals = [0, 1]\<rparr>)"
    by (simp add: dataset_defs fixture_defs upt_rec)
  show ?thesis using h sample_shapes [OF h] by fastforce
qed

subsection \<open>The fixed extension\<close>

text \<open>
  C10, as stated, fails: where \<^verbatim>\<open>a.jpg\<close> and \<^verbatim>\<open>a.png\<close> lie side by side in the inputs
  directory, \<open>get\<close> on the index of \<^verbatim>\<open>a.jpg\<close> raises nothing: it returns the sample of
  \<^verbatim>\<open>a.png\<close>.
\<close>

theorem fixed_png_extension_counterexample:
  "BurnDataset_init fixture_fs_sibling ''in'' ''masks'' True = Inr fixture_ds_sibling
   \<and> py_index (data fixture_ds_sibling) 0 = Inr ''a.jpg''
   \<and> \<not> entry_missing fixture_fs_sibling ''in'' ''a.jpg''
   \<and> BurnDataset_getitem fixture_fs_sibling fixture_ds_sibling 0
     = Inr (\<lparr>tshape = [3, 1, 2], tvals = [1, 0, 0, 0, 1 / 5, 2 / 5]\<rparr>,
            \<lparr>tshape = [1, 2], tvals = [0, 1]\<rparr>)"
  by (simp add: dataset_defs fixture_defs upt_rec)

text \<open>
  C10, amended. \<open>get(index)\<close> resolves the input path and the mask path from the stem of
  the listed filename (the text before the first dot) and the fixed extension \<open>.png\<close>;
  consequently, for every listed input file such that the inputs directory has no file
  named \<open>stem + ".png"\<close> (a file with another extension and no \<open>.png\<close> file of the same
  stem beside it), the file is counted by \<open>length()\<close>, its index is valid, and \<open>get\<close> on
  its index raises \<open>FileNotFoundError\<close> for \<open>stem + ".png"\<close> in the inputs directory
  although the listed file itself exists.
\<close>

theorem fixed_png_extension:
  assumes "BurnDataset_init fs inputs masks tr = Inr ds"
    and "py_index (data ds) index = Inr name"
    and "entry_missing fs inputs (stem name @ ''.png'')"
  shows "\<not> entry_missing fs inputs name
       \<and> name \<noteq> stem name @ ''.png''
       \<and> - int (BurnDataset_len ds) \<le> index \<and> index < int (BurnDataset_len ds)
       \<and> BurnDataset_getitem fs ds index = Inl (FileNotFoundError [inputs, stem name @ ''.png''])"
proof -
  from assms(1) obtain es where es: "fs inputs = Some es" and d: "data ds = map fst es"
    and i: "inputs_dir ds = inputs"
    by (auto simp: BurnDataset_init_def listdir_def split: option.splits)
  have "name \<in> set (data ds)"
    by (rule py_index_member [OF assms(2)])
  then have "name \<in> fst ` set es" by (simp add: d)
  then have a: "\<not> entry_missing fs inputs name"
    by (simp add: entry_missing_def es map_of_eq_None_iff)
  then have b: "name \<noteq> stem name @ ''.png''"
    using assms(3) by auto
  have c: "- int (BurnDataset_len ds) \<le> index \<and> index < int (BurnDataset_len ds)"
    using py_index_range [OF assms(2)] by (simp add: BurnDataset_len_def)
  have e: "BurnDataset_getitem fs ds index = Inl (FileNotFoundError [inputs, stem name @ ''.png''])"
    by (simp add: BurnDataset_getitem_def assms(2) i Image_open_missing [OF assms(3)])
  show ?thesis using a b c e by simp
qed

text \<open>Witness for C10: \<^verbatim>\<open>b.jpg\<close> is listed and there is no \<^verbatim>\<open>b.png\<close>.\<close>

theorem fixed_png_extension_witness:
  "BurnDataset_init fixture_fs ''in'' ''masks'' True = Inr fixture_ds
   \<and> py_index (data fixture_ds) 1 = Inr ''b.jpg''
   \<and> entry_missing fixture_fs ''in'' (stem ''b.jpg'' @ ''.png'')
   \<and> \<not> entry_missing fixture_fs ''in'' ''b.jpg''
   \<and> BurnDataset_len fixture_ds = 3
   \<and> BurnDataset_getitem fixture_fs fixture_ds 1 = Inl (FileNotFoundError [''in'', ''b.png''])"
proof -
  have b: "BurnDataset_init fixture_fs ''in'' ''masks'' True = Inr fixture_ds"
    by (simp add: dataset_defs fixture_defs)
  have c: "py_index (data fixture_ds) 1 = Inr ''b.jpg''"
    by (simp add: dataset_defs fixture_defs)
  have d: "entry_missing fixture_fs ''in'' (stem ''b.jpg'' @ ''.png'')"
    by (simp add: dataset_defs fixture_defs)
  have e: "BurnDataset_len fixture_ds = 3"
    by (simp add: dataset_defs fixture_defs)
  show ?thesis
    using b c d e fixed_png_extension [OF b c d] by (simp add: stem_def)
qed

section \<open>The network\<close>

subsection \<open>Sizes through the blocks\<close>


lemma unpool_double: "0 < h \<Longrightarrow> (h - 1) * 2 + 2 = 2 * (h :: nat)"
  by arith

lemma conv_block:
  assumes "channels x = cin" and "0 < height x" and "0 < width x"
    and "tr \<longrightarrow> batch x * height x * width x \<noteq> 1"
  shows "sequential tr [Conv2d cin mid 3 1 1, BatchNorm2d mid, ReLU,
                        Conv2d mid cout 3 1 1, BatchNorm2d cout, ReLU] x
         = Inr (x\<lparr>channels := cout\<rparr>)"
  using assms by (cases x) auto




lemma up_layer_shape:
  assumes "0 < h" and "0 < w" and "bilin \<or> c1 = cin"
  shows "layer_forward tr (up (UpConv_init cin cout bilin)) \<lparr>batch = n, channels = c1, height = h, width = w\<rparr>
         = Inr \<lparr>batch = n, channels = (if bilin then c1 else cin div 2), height = 2 * h, width = 2 * w\<rparr>"
  using assms unpool_double by (auto simp: UpConv_init_def Let_def)



subsection \<open>The forward pass\<close>





subsection \<open>Padding in the decoder block\<close>

text \<open>
  Where the skip map is one row higher than the upsampled map and as wide, the list
  \<open>[0, 0, 0, 1]\<close> is read as left 0, top 0, right 0, bottom 1, and the block returns a
  map of the size of the skip map.
\<close>

lemma UpConv_pad_height_only:
  assumes "0 < h" and "0 < w" and "bilin \<or> c1 = cin"
    and "c2 + (if bilin then c1 else cin div 2) = cin"
  shows "UpConv_forward tr (UpConv_init cin cout bilin)
           \<lparr>batch = n, channels = c1, height = h, width = w\<rparr>
           \<lparr>batch = n, channels = c2, height = 2 * h + 1, width = 2 * w\<rparr>
         = Inr \<lparr>batch = n, channels = cout, height = 2 * h + 1, width = 2 * w\<rparr>"
proof -
  let ?c = "if bilin then c1 else cin div 2"
  let ?u = "\<lparr>batch = n, channels = ?c, height = 2 * h, width = 2 * w\<rparr>"
  let ?p = "\<lparr>batch = n, channels = ?c, height = 2 * h + 1, width = 2 * w\<rparr>"
  let ?x2 = "\<lparr>batch = n, channels = c2, height = 2 * h + 1, width = 2 * w\<rparr>"
  let ?cat = "\<lparr>batch = n, channels = cin, height = 2 * h + 1, width = 2 * w\<rparr>"
  have pad: "tv_pad ?u [0 div 2, 0 - 0 div 2, 1 div 2, 1 - 1 div 2] = Inr ?p"
    by (simp add: tv_pad_def parse_pad_padding_def torch_pad_def nat_add_distrib nat_mult_distrib)
  have cat: "torch_cat ?x2 ?p = Inr ?cat"
    using assms(4) by (simp add: torch_cat_def)
  have "tr \<longrightarrow> n * (2 * h + 1) * (2 * w) \<noteq> 1"
    by simp
  then have blk: "sequential tr (conv (UpConv_init cin cout bilin)) ?cat
        = Inr \<lparr>batch = n, channels = cout, height = 2 * h + 1, width = 2 * w\<rparr>"
    using conv_block [of ?cat cin tr "cin div 2" cout] conv_block [of ?cat cin tr cout cout] assms(1,2)
    by (simp add: UpConv_init_def Let_def)
  show ?thesis
    unfolding UpConv_forward_def
    using up_layer_shape [OF assms(1-3)] cat blk pad
    by (simp del: layer_forward.simps sequential.simps)
qed


text \<open>
  C2. The claim is that the upsampled map is padded by the floor of the difference on the
  leading side and its ceiling on the trailing side of each axis. The source builds the
  list (left, right, top, bottom) \<open>[dif_w div 2, dif_w - dif_w div 2, dif_h div 2,
  dif_h - dif_h div 2]\<close>, the order of \<^verbatim>\<open>torch.nn.functional.pad\<close>, and passes it to
  torchvision's \<open>pad\<close>, which reads it as (left, top, right, bottom). On a batch of two
  16 x 24 images the bottleneck is 1 x 1 and its skip map 2 x 3: the upsampled 2 x 2 map
  is one column short, gets a row on top instead of a column on the right, and the
  concatenation raises.
\<close>

theorem pad_order_failing_input:
  "tv_pad \<lparr>batch = 2, channels = 512, height = 2, width = 2\<rparr>
       [1 div 2, 1 - 1 div 2, 0 div 2, 0 - 0 div 2]
     = Inr \<lparr>batch = 2, channels = 512, height = 3, width = 2\<rparr>
   \<and> UpConv_forward True (UpConv_init 1024 256 True)
        \<lparr>batch = 2, channels = 512, height = 1, width = 1\<rparr>
        \<lparr>batch = 2, channels = 512, height = 2, width = 3\<rparr> = Inl RuntimeError
   \<and> UNet_forward (UNet_init 3 3 True) \<lparr>batch = 2, channels = 3, height = 16, width = 24\<rparr>
     = Inl RuntimeError"
  by (simp add: unet_defs)

section \<open>The training loop\<close>

subsection \<open>One batch\<close>

lemma validation_steps_append [simp]:
  "validation_steps (xs @ ys) = validation_steps xs @ validation_steps ys"
  by (induction xs rule: validation_steps.induct) auto

lemma optimizer_steps_append [simp]:
  "optimizer_steps (xs @ ys) = optimizer_steps xs @ optimizer_steps ys"
  by (induction xs rule: optimizer_steps.induct) auto

lemma clamp_bound: "0 \<le> c \<Longrightarrow> \<bar>clamp (- c) c v\<bar> \<le> c"
  by (auto simp: clamp_def min_def max_def abs_if)

lemma clip_grad_value_bound:
  assumes "0 \<le> c" and "Some v \<in> set (clip_grad_value gs c)"
  shows "\<bar>v\<bar> \<le> c"
proof -
  from assms(2) obtain g where g: "Some v = map_option (clamp (- c) c) g"
    by (auto simp: clip_grad_value_def)
  obtain u where "v = clamp (- c) c u"
    using g by (cases g) auto
  then show ?thesis using clamp_bound [OF assms(1)] by simp
qed

lemma validation_round_trace:
  "global_step (fst (validation_round C vdl st)) = global_step st"
  "events (fst (validation_round C vdl st)) = events st @ [ValidationRound (global_step st)]"
  by (simp_all add: validation_round_def Let_def split: sum.splits)

lemma train_batch_forward_error:
  assumes "model_loss C (params (model st)) (train_mode (model st)) b = Inl e"
  shows "train_batch C n_train batch_size vdl b st = (st, Some e)"
  using assms by (simp add: train_batch_def)

lemma train_batch_step:
  assumes "model_loss C (params (model st)) (train_mode (model st)) b = Inr l"
  shows "global_step (fst (train_batch C n_train batch_size vdl b st)) = global_step st + 1"
  using assms
  by (auto simp: train_batch_def Let_def py_floordiv_def py_mod_def validation_round_trace
      split: sum.splits)

lemma train_batch_trace:
  assumes "model_loss C (params (model st)) (train_mode (model st)) b = Inr l"
    and "0 \<le> global_step st"
  shows "events (fst (train_batch C n_train batch_size vdl b st)) =
           events st
           @ [OptimizerStep (clip_grad_value (backward C (params (model st)) b (zero_grad (grad (model st)))) (1 / 10))]
           @ (if (n_train div (10 * batch_size)) dvd (global_step st + 1)
              then [ValidationRound (global_step st + 1)] else [])"
  using assms
  by (auto simp: train_batch_def Let_def py_floordiv_def py_mod_def validation_round_trace
      dvd_eq_mod_eq_0 split: sum.splits)

lemma train_batch_zero_divisor:
  assumes "model_loss C (params (model st)) (train_mode (model st)) b = Inr l"
    and "n_train div (10 * batch_size) = 0"
  shows "snd (train_batch C n_train batch_size vdl b st) = Some ZeroDivisionError"
  using assms
  by (auto simp: train_batch_def Let_def py_floordiv_def py_mod_def split: sum.splits)


subsection \<open>The trace of a run\<close>

lemma upto_snoc: "0 \<le> g \<Longrightarrow> [1..g + 1] = [1..g] @ [g + 1]"
  using upto_rec2 [of 1 "g + 1"] by simp

lemma train_batch_invariant:
  assumes "trace_invariant (n_train div (10 * batch_size)) st"
  shows "trace_invariant (n_train div (10 * batch_size)) (fst (train_batch C n_train batch_size vdl b st))"
proof (cases "model_loss C (params (model st)) (train_mode (model st)) b")
  case (Inl e)
  then show ?thesis using assms by (simp add: train_batch_forward_error)
next
  case (Inr l)
  from assms have g: "0 \<le> global_step st" by (simp add: trace_invariant_def)
  have c: "\<forall>v. Some v \<in> set (clip_grad_value gs (1 / 10)) \<longrightarrow> \<bar>v\<bar> \<le> 1 / 10" for gs
    using clip_grad_value_bound [of "1 / 10"] by auto
  show ?thesis
    using assms g c
    by (auto simp: trace_invariant_def train_batch_step [OF Inr] train_batch_trace [OF Inr g]
        upto_snoc nat_add_distrib)
qed

lemma batch_loop_invariant:
  assumes "trace_invariant (n_train div (10 * batch_size)) st"
  shows "trace_invariant (n_train div (10 * batch_size)) (fst (batch_loop C n_train batch_size vdl bs st))"
  using assms
proof (induction bs arbitrary: st)
  case Nil
  then show ?case by simp
next
  case (Cons b bs)
  obtain st' r where t: "train_batch C n_train batch_size vdl b st = (st', r)"
    by (cases "train_batch C n_train batch_size vdl b st")
  have i: "trace_invariant (n_train div (10 * batch_size)) st'"
    using train_batch_invariant [OF Cons.prems, of C vdl b] t by simp
  show ?case
    using Cons.IH [OF i] i t by (cases r) simp_all
qed

lemma epoch_loop_invariant:
  assumes "trace_invariant (n_train div (10 * batch_size)) st"
  shows "trace_invariant (n_train div (10 * batch_size))
           (fst (epoch_loop C n_train batch_size tdl vdl es st))"
  using assms
proof (induction es arbitrary: st)
  case Nil
  then show ?case by simp
next
  case (Cons e es)
  let ?st0 = "st\<lparr>model := (model st)\<lparr>train_mode := True\<rparr>, epoch_loss := 0\<rparr>"
  have i0: "trace_invariant (n_train div (10 * batch_size)) ?st0"
    using Cons.prems by (simp add: trace_invariant_def)
  obtain st' r where t: "batch_loop C n_train batch_size vdl (tdl e) ?st0 = (st', r)"
    by (cases "batch_loop C n_train batch_size vdl (tdl e) ?st0")
  have i: "trace_invariant (n_train div (10 * batch_size)) st'"
    using batch_loop_invariant [OF i0, of C vdl "tdl e"] t by simp
  show ?case
    using Cons.IH [OF i] i t by (cases r) (simp_all add: Let_def)
qed

lemma train_model_invariant:
  "trace_invariant (n_train div (10 * batch_size))
     (fst (train_model C mdl epochs batch_size lr n_train tdl vdl))"
  unfolding train_model_def
  by (rule epoch_loop_invariant) (simp add: trace_invariant_def)

lemma train_batch_complete:
  assumes "snd (train_batch C n_train batch_size vdl b st) = None"
  shows "global_step (fst (train_batch C n_train batch_size vdl b st)) = global_step st + 1"
proof (cases "model_loss C (params (model st)) (train_mode (model st)) b")
  case (Inl e)
  then show ?thesis using assms by (simp add: train_batch_forward_error)
next
  case (Inr l)
  then show ?thesis by (rule train_batch_step)
qed

lemma batch_loop_complete:
  assumes "snd (batch_loop C n_train batch_size vdl bs st) = None"
  shows "global_step (fst (batch_loop C n_train batch_size vdl bs st)) = global_step st + int (length bs)"
  using assms
proof (induction bs arbitrary: st)
  case Nil
  then show ?case by simp
next
  case (Cons b bs)
  obtain st' r where t: "train_batch C n_train batch_size vdl b st = (st', r)"
    by (cases "train_batch C n_train batch_size vdl b st")
  show ?case
  proof (cases r)
    case None
    then have "global_step st' = global_step st + 1"
      using train_batch_complete [of C n_train batch_size vdl b st] t by simp
    then show ?thesis
      using Cons.IH [of st'] Cons.prems t None by simp
  next
    case (Some e)
    then show ?thesis using Cons.prems t by simp
  qed
qed

lemma epoch_loop_complete:
  assumes "snd (epoch_loop C n_train batch_size tdl vdl es st) = None"
  shows "global_step (fst (epoch_loop C n_train batch_size tdl vdl es st))
         = global_step st + (\<Sum>e\<leftarrow>es. int (length (tdl e)))"
  using assms
proof (induction es arbitrary: st)
  case Nil
  then show ?case by simp
next
  case (Cons e es)
  let ?st0 = "st\<lparr>model := (model st)\<lparr>train_mode := True\<rparr>, epoch_loss := 0\<rparr>"
  obtain st' r where t: "batch_loop C n_train batch_size vdl (tdl e) ?st0 = (st', r)"
    by (cases "batch_loop C n_train batch_size vdl (tdl e) ?st0")
  show ?case
  proof (cases r)
    case None
    then have "global_step st' = global_step st + int (length (tdl e))"
      using batch_loop_complete [of C n_train batch_size vdl "tdl e" ?st0] t by simp
    then show ?thesis
      using Cons.IH [of st'] Cons.prems t None by (simp add: Let_def)
  next
    case (Some e)
    then show ?thesis using Cons.prems t by (simp add: Let_def)
  qed
qed


subsection \<open>Validation cadence\<close>

text \<open>
  C3. During training, a validation round is triggered exactly at every global step that
  is a multiple of \<open>floor(n_train / (10 * batch_size))\<close>: in every run, complete or
  aborted, the global steps at which validation rounds started are, in order and once
  each, the multiples of that quotient among the global steps \<open>1, 2, ...\<close> the run
  reached; none is skipped and there is no other. A run that ends without an exception
  has reached as many global steps as the epochs yielded batches. (Where the quotient is
  zero no global step from 1 on is a multiple of it, and no round starts.)
\<close>

theorem validation_cadence:
  "validation_steps (events (fst (train_model C mdl epochs batch_size lr n_train tdl vdl)))
     = filter (\<lambda>g. (n_train div (10 * batch_size)) dvd g)
         [1..global_step (fst (train_model C mdl epochs batch_size lr n_train tdl vdl))]
   \<and> (snd (train_model C mdl epochs batch_size lr n_train tdl vdl) = None \<longrightarrow>
        global_step (fst (train_model C mdl epochs batch_size lr n_train tdl vdl))
          = (\<Sum>e\<leftarrow>[0..<nat epochs]. int (length (tdl e))))"
proof
  show "validation_steps (events (fst (train_model C mdl epochs batch_size lr n_train tdl vdl)))
     = filter (\<lambda>g. (n_train div (10 * batch_size)) dvd g)
         [1..global_step (fst (train_model C mdl epochs batch_size lr n_train tdl vdl))]"
    using train_model_invariant [of n_train batch_size C mdl epochs lr tdl vdl]
    by (simp add: trace_invariant_def)
  show "snd (train_model C mdl epochs batch_size lr n_train tdl vdl) = None \<longrightarrow>
        global_step (fst (train_model C mdl epochs batch_size lr n_train tdl vdl))
          = (\<Sum>e\<leftarrow>[0..<nat epochs]. int (length (tdl e)))"
    using epoch_loop_complete [of C n_train batch_size tdl vdl "[0..<nat epochs]"]
    by (simp add: train_model_def)
qed

text \<open>Witness for C3: two epochs of two batches with \<open>n_train = 20\<close> and \<open>batch_size = 1\<close>:
  the quotient is 2 and the rounds start at the global steps 2 and 4.\<close>

theorem validation_cadence_witness:
  "validation_steps (events (fst (train_model fixture_collab fixture_model 2 1 1 20 fixture_loader [1])))
     = [2, 4]
   \<and> snd (train_model fixture_collab fixture_model 2 1 1 20 fixture_loader [1]) = None
   \<and> global_step (fst (train_model fixture_collab fixture_model 2 1 1 20 fixture_loader [1])) = 4
   \<and> filter (\<lambda>g. ((20::int) div (10 * 1)) dvd g) [1..4] = [2, 4]"
proof -
  have n: "snd (train_model fixture_collab fixture_model 2 1 1 20 fixture_loader [1]) = None"
    by (simp add: train_defs upt_rec)
  have s: "(\<Sum>e\<leftarrow>[0..<nat 2]. int (length (fixture_loader e))) = 4"
    by (simp add: fixture_loader_def upt_rec)
  have f: "filter (\<lambda>g. ((20::int) div (10 * 1)) dvd g) [1..4] = [2, 4]"
    by (simp add: upto_rec1)
  show ?thesis
    using n s f validation_cadence [of fixture_collab fixture_model 2 1 1 20 fixture_loader "[1]"]
    by simp
qed

subsection \<open>Gradient clipping\<close>



subsection \<open>A zero divisor\<close>

lemma small_n_train_divisor:
  assumes "0 \<le> n_train" and "n_train < 10 * batch_size"
  shows "n_train div (10 * batch_size) = 0" and "py_floordiv n_train (10 * batch_size) = Inr 0"
  using assms by (simp_all add: py_floordiv_def div_pos_pos_trivial)

lemma train_batch_small_n_train:
  assumes "0 \<le> n_train" and "n_train < 10 * batch_size"
  shows "snd (train_batch C n_train batch_size vdl b st) \<noteq> None"
proof (cases "model_loss C (params (model st)) (train_mode (model st)) b")
  case (Inl e)
  then show ?thesis by (simp add: train_batch_forward_error)
next
  case (Inr l)
  then show ?thesis
    using train_batch_zero_divisor [OF Inr small_n_train_divisor(1) [OF assms]] by simp
qed

lemma batch_loop_small_n_train:
  assumes "0 \<le> n_train" and "n_train < 10 * batch_size"
    and "snd (batch_loop C n_train batch_size vdl bs st) = None"
  shows "bs = [] \<and> fst (batch_loop C n_train batch_size vdl bs st) = st"
proof (cases bs)
  case Nil
  then show ?thesis by simp
next
  case (Cons b bs')
  obtain st' r where t: "train_batch C n_train batch_size vdl b st = (st', r)"
    by (cases "train_batch C n_train batch_size vdl b st")
  then have "r \<noteq> None"
    using train_batch_small_n_train [OF assms(1,2), of C vdl b st] by simp
  then show ?thesis using assms(3) t Cons by auto
qed

lemma epoch_loop_small_n_train:
  assumes "0 \<le> n_train" and "n_train < 10 * batch_size"
    and "snd (epoch_loop C n_train batch_size tdl vdl es st) = None"
  shows "(\<forall>e \<in> set es. tdl e = [])
       \<and> global_step (fst (epoch_loop C n_train batch_size tdl vdl es st)) = global_step st
       \<and> events (fst (epoch_loop C n_train batch_size tdl vdl es st)) = events st"
  using assms(3)
proof (induction es arbitrary: st)
  case Nil
  then show ?case by simp
next
  case (Cons e es)
  let ?st0 = "st\<lparr>model := (model st)\<lparr>train_mode := True\<rparr>, epoch_loss := 0\<rparr>"
  obtain st' r where t: "batch_loop C n_train batch_size vdl (tdl e) ?st0 = (st', r)"
    by (cases "batch_loop C n_train batch_size vdl (tdl e) ?st0")
  show ?case
  proof (cases r)
    case None
    then have b: "tdl e = [] \<and> st' = ?st0"
      using batch_loop_small_n_train [OF assms(1,2), of C vdl "tdl e" ?st0] t by simp
    have "snd (epoch_loop C n_train batch_size tdl vdl es st') = None"
      using Cons.prems t None by (simp add: Let_def)
    from Cons.IH [OF this] show ?thesis
      using t None b by (simp add: Let_def)
  next
    case (Some err)
    then show ?thesis using Cons.prems t by (simp add: Let_def)
  qed
qed


text \<open>
  C9, as stated, fails: with \<open>n_train = 5 < 10 * batch_size = 10\<close> and no epoch to run,
  \<open>train_model\<close> returns without an exception, so it is total outside the precondition
  \<open>n_train >= 10 * batch_size\<close> too.
\<close>

theorem zero_divisor_aborts_counterexample:
  "(5::int) < 10 * 1
   \<and> train_model fixture_collab fixture_model 0 1 1 5 fixture_loader [1]
     = (\<lparr>model = fixture_model, optimizer = 1, global_step = 0, epoch_loss = 0,
         writer = [], events = []\<rparr>,
        None)"
  by (simp add: train_defs)

text \<open>
  C9, amended. The validation-trigger condition computes \<open>global_step\<close> modulo
  \<open>n_train // (10 * batch_size)\<close>; whenever \<open>0 <= n_train < 10 * batch_size\<close> the divisor
  is zero, and a run whose first training batch gets through its forward pass aborts in
  that batch, at global step 1, with a division-by-zero error; under that condition
  \<open>train_model\<close> returns without an exception only when it trains no batch at all (no
  epoch, or no batch in any epoch).
\<close>

theorem zero_divisor_aborts:
  assumes "0 \<le> n_train" and "n_train < 10 * batch_size"
  shows "py_floordiv n_train (10 * batch_size) = Inr 0
       \<and> (0 < epochs \<longrightarrow> tdl 0 = b # bs \<longrightarrow> model_loss C (params mdl) True b = Inr l \<longrightarrow>
            snd (train_model C mdl epochs batch_size lr n_train tdl vdl) = Some ZeroDivisionError
          \<and> global_step (fst (train_model C mdl epochs batch_size lr n_train tdl vdl)) = 1)
       \<and> (snd (train_model C mdl epochs batch_size lr n_train tdl vdl) = None \<longrightarrow>
            (\<forall>e < nat epochs. tdl e = [])
          \<and> global_step (fst (train_model C mdl epochs batch_size lr n_train tdl vdl)) = 0)"
proof (intro conjI impI)
  show "py_floordiv n_train (10 * batch_size) = Inr 0"
    by (rule small_n_train_divisor(2) [OF assms])
next
  assume e: "0 < epochs" and t: "tdl 0 = b # bs" and l: "model_loss C (params mdl) True b = Inr l"
  let ?st0 = "\<lparr>model = mdl\<lparr>train_mode := True\<rparr>, optimizer = optimizer_init C lr, global_step = 0,
               epoch_loss = 0, writer = [], events = []\<rparr>"
  have l0: "model_loss C (params (model ?st0)) (train_mode (model ?st0)) b = Inr l"
    using l by simp
  obtain st' r where tb: "train_batch C n_train batch_size vdl b ?st0 = (st', r)"
    by (cases "train_batch C n_train batch_size vdl b ?st0")
  have r: "r = Some ZeroDivisionError"
    using train_batch_zero_divisor [OF l0 small_n_train_divisor(1) [OF assms], of vdl] tb by simp
  have g: "global_step st' = 1"
    using train_batch_step [OF l0, of n_train batch_size vdl] tb by simp
  have u: "[0..<nat epochs] = 0 # [1..<nat epochs]"
    using e by (simp add: upt_rec)
  have "train_model C mdl epochs batch_size lr n_train tdl vdl = (st', Some ZeroDivisionError)"
    using tb r by (simp add: train_model_def u t Let_def)
  then show "snd (train_model C mdl epochs batch_size lr n_train tdl vdl) = Some ZeroDivisionError"
    and "global_step (fst (train_model C mdl epochs batch_size lr n_train tdl vdl)) = 1"
    using g by simp_all
next
  assume n: "snd (train_model C mdl epochs batch_size lr n_train tdl vdl) = None"
  then have "snd (epoch_loop C n_train batch_size tdl vdl [0..<nat epochs]
       \<lparr>model = mdl, optimizer = optimizer_init C lr, global_step = 0, epoch_loss = 0,
        writer = [], events = []\<rparr>) = None"
    by (simp add: train_model_def)
  from epoch_loop_small_n_train [OF assms this]
  show "\<forall>e < nat epochs. tdl e = []"
    and "global_step (fst (train_model C mdl epochs batch_size lr n_train tdl vdl)) = 0"
    by (simp_all add: train_model_def)
qed


text \<open>Witness for C9: \<open>n_train = 5\<close>, \<open>batch_size = 1\<close>, two epochs of two batches.\<close>

theorem zero_divisor_aborts_witness:
  "(0::int) \<le> 5 \<and> (5::int) < 10 * 1
   \<and> (0::int) < 2 \<and> fixture_loader 0 = 5 # [-3]
   \<and> model_loss fixture_collab (params fixture_model) True 5 = Inr 5
   \<and> snd (train_model fixture_collab fixture_model 2 1 1 5 fixture_loader [1]) = Some ZeroDivisionError
   \<and> global_step (fst (train_model fixture_collab fixture_model 2 1 1 5 fixture_loader [1])) = 1"
proof -
  have a: "fixture_loader 0 = 5 # [-3]" by (simp add: fixture_loader_def)
  have b: "model_loss fixture_collab (params fixture_model) True 5 = Inr 5"
    by (simp add: fixture_collab_def fixture_model_def)
  show ?thesis
    using a b
      zero_divisor_aborts [of 5 1 2 fixture_loader 5 "[-3]" fixture_collab fixture_model 5 1 "[1]"]
    by simp
qed

end
